theory Spec2Isabelle
  imports Main "HOL-Library.Sublist" "HOL-Library.Word"
begin

section \<open>Python values\<close>

text \<open>
  The widget factory (\<^verbatim>\<open>src/main_module.py\<close>) keeps widget configuration in plain
  Python dictionaries whose values are whatever \<^verbatim>\<open>json.loads\<close> produces. Such a value is
  \<^verbatim>\<open>None\<close>, a \<^verbatim>\<open>bool\<close>, an unbounded \<^verbatim>\<open>int\<close>, a \<^verbatim>\<open>float\<close>, a \<^verbatim>\<open>str\<close>, a \<^verbatim>\<open>list\<close> or a
  \<^verbatim>\<open>dict\<close> with string keys.

  A \<^verbatim>\<open>str\<close> is a sequence of code points; the model writes it as a \<open>string\<close> with one
  \<open>char\<close> for each code point below 256. A \<^verbatim>\<open>float\<close> is carried as its 64-bit pattern;
  nothing here computes with one, only its kind is inspected. A \<^verbatim>\<open>dict\<close> is the list of
  its items in insertion order.
\<close>

datatype pyval =
    PNone
  | PBool bool
  | PInt int
  | PFloat "64 word"
  | PStr string
  | PList "pyval list"
  | PDict "(string \<times> pyval) list"

type_synonym pydict = "(string \<times> pyval) list"

text \<open>\<^verbatim>\<open>d.get(k)\<close>, with \<open>None\<close> for a missing key; \<^verbatim>\<open>k in d\<close> is \<open>dict_get d k \<noteq> None\<close>.\<close>

definition dict_get :: "('k \<times> 'v) list \<Rightarrow> 'k \<Rightarrow> 'v option" where
  "dict_get d k = map_of d k"

text \<open>\<^verbatim>\<open>d.get(k, default)\<close>.\<close>

definition dict_get_default :: "('k \<times> 'v) list \<Rightarrow> 'k \<Rightarrow> 'v \<Rightarrow> 'v" where
  "dict_get_default d k dflt = (case dict_get d k of None \<Rightarrow> dflt | Some v \<Rightarrow> v)"

text \<open>
  \<^verbatim>\<open>d[k] = v\<close>: an existing key keeps its place and takes the new value, a new key is
  added at the end.
\<close>

fun dict_set :: "(string \<times> 'v) list \<Rightarrow> string \<Rightarrow> 'v \<Rightarrow> (string \<times> 'v) list" where
  "dict_set [] k v = [(k, v)]"
| "dict_set ((k', v') # d) k v = (if k' = k then (k, v) # d else (k', v') # dict_set d k v)"

text \<open>The items of a dictionary display \<^verbatim>\<open>{**items, ...}\<close>, inserted one after the other.\<close>

definition dict_of_items :: "(string \<times> 'v) list \<Rightarrow> (string \<times> 'v) list" where
  "dict_of_items items = foldl (\<lambda>d (k, v). dict_set d k v) [] items"

text \<open>A list of items is a dictionary when no key occurs twice.\<close>

definition dict_wf :: "(string \<times> 'v) list \<Rightarrow> bool" where
  "dict_wf d = distinct (map fst d)"

text \<open>\<^verbatim>\<open>type(value).__name__\<close>.\<close>

fun type_name :: "pyval \<Rightarrow> string" where
  "type_name PNone = ''NoneType''"
| "type_name (PBool _) = ''bool''"
| "type_name (PInt _) = ''int''"
| "type_name (PFloat _) = ''float''"
| "type_name (PStr _) = ''str''"
| "type_name (PList _) = ''list''"
| "type_name (PDict _) = ''dict''"

text \<open>The classes that the schema table and the prop-type table mention.\<close>

datatype pytype = TStr | TInt | TFloat | TBool | TList | TDict

text \<open>\<^verbatim>\<open>t.__name__\<close> and \<^verbatim>\<open>repr(t)\<close> of a class.\<close>

fun class_name :: "pytype \<Rightarrow> string" where
  "class_name TStr = ''str''"
| "class_name TInt = ''int''"
| "class_name TFloat = ''float''"
| "class_name TBool = ''bool''"
| "class_name TList = ''list''"
| "class_name TDict = ''dict''"

definition class_repr :: "pytype \<Rightarrow> string" where
  "class_repr t = ''<class '' @ [CHR 0x27] @ class_name t @ [CHR 0x27] @ ''>''"

text \<open>
  \<^verbatim>\<open>isinstance(value, t)\<close> for a class \<open>t\<close>. \<^verbatim>\<open>bool\<close> is a subclass of \<^verbatim>\<open>int\<close>, so
  \<^verbatim>\<open>True\<close> and \<^verbatim>\<open>False\<close> are instances of \<^verbatim>\<open>int\<close> as well.
\<close>

fun isinstance1 :: "pyval \<Rightarrow> pytype \<Rightarrow> bool" where
  "isinstance1 (PStr _) TStr = True"
| "isinstance1 (PInt _) TInt = True"
| "isinstance1 (PBool _) TInt = True"
| "isinstance1 (PFloat _) TFloat = True"
| "isinstance1 (PBool _) TBool = True"
| "isinstance1 (PList _) TList = True"
| "isinstance1 (PDict _) TDict = True"
| "isinstance1 _ _ = False"

text \<open>A schema entry is one class or a tuple of classes.\<close>

datatype expected = One pytype | Tuple "pytype list"

fun isinstance :: "pyval \<Rightarrow> expected \<Rightarrow> bool" where
  "isinstance v (One t) = isinstance1 v t"
| "isinstance v (Tuple ts) = list_ex (isinstance1 v) ts"

text \<open>\<^verbatim>\<open>sep.join(parts)\<close>.\<close>

fun join :: "string \<Rightarrow> string list \<Rightarrow> string" where
  "join sep [] = []"
| "join sep [s] = s"
| "join sep (s # t # ts) = s @ sep @ join sep (t # ts)"

text \<open>\<^verbatim>\<open>repr\<close> of a tuple of classes, as an f-string prints it.\<close>

fun tuple_repr :: "pytype list \<Rightarrow> string" where
  "tuple_repr [] = ''()''"
| "tuple_repr [t] = ''('' @ class_repr t @ '',)''"
| "tuple_repr ts = ''('' @ join '', '' (map class_repr ts) @ '')''"

text \<open>\<^verbatim>\<open>str(n)\<close> of an integer: decimal digits, with a minus sign below zero.\<close>

definition digit_char :: "nat \<Rightarrow> char" where
  "digit_char d = char_of (48 + d)"

function str_nat :: "nat \<Rightarrow> string" where
  "str_nat n = (if n < 10 then [digit_char n] else str_nat (n div 10) @ [digit_char (n mod 10)])"
  by pat_completeness auto
termination
  by (relation "measure id") auto

declare str_nat.simps [simp del]

definition str_int :: "int \<Rightarrow> string" where
  "str_int i = (if i < 0 then CHR ''-'' # str_nat (nat (- i)) else str_nat (nat i))"

section \<open>Tables\<close>

definition WIDGET_TYPES :: "string set" where
  "WIDGET_TYPES = {
     ''button'', ''input'', ''text'', ''image'', ''chart'', ''table'',
     ''card'', ''modal'', ''dropdown'', ''checkbox'', ''slider'',
     ''progress'', ''badge'', ''avatar'', ''tooltip'', ''tabs'',
     ''accordion'', ''navbar'', ''sidebar'', ''form''}"

definition CONFIG_SCHEMAS :: "(string \<times> (string \<times> expected) list) list" where
  "CONFIG_SCHEMAS = [
     (''button'',   [(''label'', One TStr), (''variant'', One TStr), (''disabled'', One TBool)]),
     (''input'',    [(''placeholder'', One TStr), (''type'', One TStr), (''required'', One TBool),
                     (''maxLength'', One TInt)]),
     (''text'',     [(''content'', One TStr), (''size'', One TStr), (''weight'', One TStr),
                     (''color'', One TStr)]),
     (''image'',    [(''src'', One TStr), (''alt'', One TStr), (''width'', One TInt),
                     (''height'', One TInt)]),
     (''chart'',    [(''chartType'', One TStr), (''data'', One TList), (''title'', One TStr),
                     (''showLegend'', One TBool)]),
     (''table'',    [(''columns'', One TList), (''rows'', One TList), (''sortable'', One TBool),
                     (''paginate'', One TBool)]),
     (''card'',     [(''title'', One TStr), (''body'', One TStr), (''footer'', One TStr),
                     (''elevation'', One TInt)]),
     (''modal'',    [(''title'', One TStr), (''content'', One TStr), (''closable'', One TBool)]),
     (''dropdown'', [(''options'', One TList), (''placeholder'', One TStr),
                     (''multiple'', One TBool)]),
     (''checkbox'', [(''label'', One TStr), (''checked'', One TBool),
                     (''indeterminate'', One TBool)]),
     (''slider'',   [(''min'', Tuple [TInt, TFloat]), (''max'', Tuple [TInt, TFloat]),
                     (''step'', Tuple [TInt, TFloat]), (''value'', Tuple [TInt, TFloat])]),
     (''progress'', [(''value'', Tuple [TInt, TFloat]), (''max'', Tuple [TInt, TFloat]),
                     (''label'', One TStr), (''color'', One TStr)]),
     (''badge'',    [(''text'', One TStr), (''color'', One TStr), (''size'', One TStr)]),
     (''avatar'',   [(''src'', One TStr), (''name'', One TStr), (''size'', One TStr)]),
     (''tooltip'',  [(''content'', One TStr), (''placement'', One TStr)]),
     (''tabs'',     [(''items'', One TList), (''activeIndex'', One TInt)])]"

definition PROP_TYPES :: "(pytype \<times> string) list" where
  "PROP_TYPES = [
     (TStr, ''PropTypes.string''),
     (TInt, ''PropTypes.number''),
     (TFloat, ''PropTypes.number''),
     (TBool, ''PropTypes.bool''),
     (TList, ''PropTypes.array''),
     (TDict, ''PropTypes.object'')]"

section \<open>Data structures\<close>

text \<open>
  The dataclasses, with the field types of their annotations. The fields \<^verbatim>\<open>x\<close>, \<^verbatim>\<open>y\<close>,
  \<^verbatim>\<open>width\<close> and \<^verbatim>\<open>height\<close> of \<^verbatim>\<open>Position\<close> carry the prefix of their database columns, and
  the \<^verbatim>\<open>name\<close> and \<^verbatim>\<open>created_at\<close> of a layout the prefix \<open>layout_\<close>.
\<close>

record Position =
  pos_x :: int
  pos_y :: int
  pos_width :: int
  pos_height :: int

record Widget =
  widget_type :: string
  config :: pydict
  position :: Position
  widget_id :: string
  label :: string
  visible :: bool
  created_at :: string
  db_id :: "int option"

record WidgetLayout =
  layout_name :: string
  widgets :: "Widget list"
  columns :: int
  row_height :: int
  layout_id :: "int option"
  layout_created_at :: string

text \<open>\<^verbatim>\<open>asdict(position)\<close>.\<close>

definition asdict :: "Position \<Rightarrow> pydict" where
  "asdict p = [(''x'', PInt (pos_x p)), (''y'', PInt (pos_y p)),
               (''width'', PInt (pos_width p)), (''height'', PInt (pos_height p))]"

section \<open>Validation\<close>

text \<open>
  The loop of \<^verbatim>\<open>validate_config\<close> over the items of the schema; \<open>errors\<close> is the list
  built so far.
\<close>

fun check_fields :: "pydict \<Rightarrow> (string \<times> expected) list \<Rightarrow> string list \<Rightarrow> string list" where
  "check_fields cfg [] errors = errors"
| "check_fields cfg ((key, expected_type) # rest) errors =
     (case dict_get cfg key of
        None \<Rightarrow> check_fields cfg rest errors
      | Some val \<Rightarrow>
          (case expected_type of
             Tuple ts \<Rightarrow>
               if \<not> isinstance val (Tuple ts)
               then check_fields cfg rest
                      (errors @ [[CHR 0x27] @ key @ [CHR 0x27] @ '' must be one of ''
                                 @ tuple_repr ts @ '', got '' @ type_name val])
               else check_fields cfg rest errors
           | One t \<Rightarrow>
               if \<not> isinstance val (One t)
               then check_fields cfg rest
                      (errors @ [[CHR 0x27] @ key @ [CHR 0x27] @ '' must be ''
                                 @ class_name t @ '', got '' @ type_name val])
               else check_fields cfg rest errors))"

definition validate_config :: "Widget \<Rightarrow> string list" where
  "validate_config widget =
     (if widget_type widget \<notin> WIDGET_TYPES
      then [''Unknown widget type: '' @ widget_type widget]
      else
        let schema = dict_get_default CONFIG_SCHEMAS (widget_type widget) [];
            errors = check_fields (config widget) schema [];
            pos = position widget;
            errors = (if \<not> (0 \<le> pos_x pos \<and> pos_x pos \<le> 12)
                      then errors @ [''Position x='' @ str_int (pos_x pos) @ '' out of range [0,12]'']
                      else errors);
            errors = (if \<not> (1 \<le> pos_width pos \<and> pos_width pos \<le> 12)
                      then errors @ [''Width='' @ str_int (pos_width pos) @ '' out of range [1,12]'']
                      else errors);
            errors = (if pos_x pos + pos_width pos > 12
                      then errors @ [''Widget overflows grid: x('' @ str_int (pos_x pos)
                                     @ '') + width('' @ str_int (pos_width pos) @ '') > 12'']
                      else errors);
            errors = (if pos_height pos < 1
                      then errors @ [''Height must be >= 1, got '' @ str_int (pos_height pos)]
                      else errors);
            errors = (if widget_id widget = []
                      then errors @ [''widget_id is required'']
                      else errors)
        in errors)"

text \<open>
  The hypothesis of the validity property: every field of the schema that the
  configuration holds has a value of the expected class, or of one of the expected classes.
\<close>

fun config_conforms :: "pydict \<Rightarrow> (string \<times> expected) list \<Rightarrow> bool" where
  "config_conforms cfg [] = True"
| "config_conforms cfg ((key, expected_type) # rest) =
     ((case dict_get cfg key of None \<Rightarrow> True | Some val \<Rightarrow> isinstance val expected_type)
      \<and> config_conforms cfg rest)"

section \<open>Serialization\<close>

definition serialize_widget :: "Widget \<Rightarrow> pydict" where
  "serialize_widget widget = [
     (''widget_id'', PStr (widget_id widget)),
     (''widget_type'', PStr (widget_type widget)),
     (''label'', PStr (label widget)),
     (''config'', PDict (config widget)),
     (''position'', PDict (asdict (position widget))),
     (''visible'', PBool (visible widget)),
     (''created_at'', PStr (created_at widget))]"

text \<open>
  What \<^verbatim>\<open>deserialize_widget\<close> can raise: \<^verbatim>\<open>data["widget_type"]\<close> on a missing key, \<^verbatim>\<open>.get\<close>
  on a value that is no dictionary, \<^verbatim>\<open>json.loads\<close> on malformed text; \<^verbatim>\<open>export_layout\<close>
  raises \<^verbatim>\<open>ValueError\<close> with a message.

  A dataclass does not check its annotations when it is built, so Python also returns a
  \<^verbatim>\<open>Widget\<close> when a value has another type than the field declares. The record has no such
  inhabitant, and the model answers \<open>NotRepresentable\<close> there, after every exception of the
  source has had its turn. A \<^verbatim>\<open>bool\<close> in the place of a coordinate is treated the same way:
  the record keeps integers proper.
\<close>

datatype error =
    KeyError string
  | AttributeError string
  | JSONDecodeError
  | ValueError string
  | NotRepresentable

definition the_str :: "pyval \<Rightarrow> string option" where
  "the_str v = (case v of PStr s \<Rightarrow> Some s | _ \<Rightarrow> None)"

definition the_int :: "pyval \<Rightarrow> int option" where
  "the_int v = (case v of PInt i \<Rightarrow> Some i | _ \<Rightarrow> None)"

definition the_bool :: "pyval \<Rightarrow> bool option" where
  "the_bool v = (case v of PBool b \<Rightarrow> Some b | _ \<Rightarrow> None)"

definition the_dict :: "pyval \<Rightarrow> pydict option" where
  "the_dict v = (case v of PDict d \<Rightarrow> Some d | _ \<Rightarrow> None)"

text \<open>
  The constructor calls \<^verbatim>\<open>Widget(..., position=Position(...), ...)\<close> of
  \<^verbatim>\<open>deserialize_widget\<close>, on the values read from the input; \<^verbatim>\<open>db_id\<close> is not passed and
  takes its default \<^verbatim>\<open>None\<close>.
\<close>

definition make_widget ::
  "pyval \<Rightarrow> pyval \<Rightarrow> pyval \<Rightarrow> pyval \<Rightarrow> pyval \<Rightarrow> pyval \<Rightarrow> pyval \<Rightarrow> pyval \<Rightarrow> pyval \<Rightarrow> pyval
   \<Rightarrow> error + Widget" where
  "make_widget v_id v_type v_label v_config v_x v_y v_width v_height v_visible v_created =
     (case (the_str v_id, the_str v_type, the_str v_label, the_dict v_config,
            (the_int v_x, the_int v_y, the_int v_width, the_int v_height),
            the_bool v_visible, the_str v_created) of
        (Some i, Some t, Some l, Some c, (Some x, Some y, Some w, Some h), Some vis, Some cr) \<Rightarrow>
          Inr \<lparr>widget_type = t, config = c,
               position = \<lparr>pos_x = x, pos_y = y, pos_width = w, pos_height = h\<rparr>,
               widget_id = i, label = l, visible = vis, created_at = cr, db_id = None\<rparr>
      | _ \<Rightarrow> Inl NotRepresentable)"

text \<open>
  \<^verbatim>\<open>deserialize_widget\<close>. Its surroundings are parameters: \<open>loads\<close> is \<^verbatim>\<open>json.loads\<close>
  (\<open>None\<close> when it raises), \<open>uuid4\<close> the text of the identifier that \<^verbatim>\<open>uuid.uuid4()\<close>
  draws and \<open>utcnow\<close> the text of the clock. The arguments of the constructor are evaluated
  in the order they are written, so a missing \<^verbatim>\<open>widget_type\<close> is met before the position
  is taken apart.
\<close>

definition deserialize_widget ::
  "(string \<Rightarrow> pyval option) \<Rightarrow> string \<Rightarrow> string \<Rightarrow> pyval \<Rightarrow> error + Widget" where
  "deserialize_widget loads uuid4 utcnow data0 =
     (case (case data0 of PStr s \<Rightarrow> loads s | _ \<Rightarrow> Some data0) of
        None \<Rightarrow> Inl JSONDecodeError
      | Some (PDict data) \<Rightarrow>
          (let pos_data = dict_get_default data ''position'' (PDict []);
               v_id = dict_get_default data ''widget_id'' (PStr uuid4)
           in case dict_get data ''widget_type'' of
                None \<Rightarrow> Inl (KeyError ''widget_type'')
              | Some v_type \<Rightarrow>
                  (let v_label = dict_get_default data ''label'' (PStr []);
                       v_config = dict_get_default data ''config'' (PDict [])
                   in case pos_data of
                        PDict pos \<Rightarrow>
                          make_widget v_id v_type v_label v_config
                            (dict_get_default pos ''x'' (PInt 0))
                            (dict_get_default pos ''y'' (PInt 0))
                            (dict_get_default pos ''width'' (PInt 4))
                            (dict_get_default pos ''height'' (PInt 2))
                            (dict_get_default data ''visible'' (PBool True))
                            (dict_get_default data ''created_at'' (PStr utcnow))
                      | _ \<Rightarrow> Inl (AttributeError ''get'')))
      | Some _ \<Rightarrow> Inl (AttributeError ''get''))"

section \<open>React prop generation\<close>

definition type_map :: "(string \<times> string) list" where
  "type_map = [
     (''button'', ''Button''),
     (''input'', ''Input''),
     (''text'', ''Typography''),
     (''image'', ''Image''),
     (''chart'', ''Chart''),
     (''table'', ''DataTable''),
     (''card'', ''Card''),
     (''modal'', ''Modal''),
     (''dropdown'', ''Select''),
     (''checkbox'', ''Checkbox''),
     (''slider'', ''Slider''),
     (''progress'', ''ProgressBar''),
     (''badge'', ''Badge''),
     (''avatar'', ''Avatar''),
     (''tooltip'', ''Tooltip''),
     (''tabs'', ''Tabs'')]"

text \<open>The loop that fills \<^verbatim>\<open>prop_types\<close> from the schema.\<close>

fun build_prop_types ::
  "(string \<times> expected) list \<Rightarrow> (string \<times> string) list \<Rightarrow> (string \<times> string) list" where
  "build_prop_types [] prop_types = prop_types"
| "build_prop_types ((key, expected_type) # rest) prop_types =
     (let pt = (case expected_type of
                  Tuple ts \<Rightarrow>
                    join '' || '' (map (\<lambda>t. dict_get_default PROP_TYPES t ''PropTypes.any'') ts)
                | One t \<Rightarrow> dict_get_default PROP_TYPES t ''PropTypes.any'')
      in build_prop_types rest (dict_set prop_types key pt))"

text \<open>The loop that fills \<^verbatim>\<open>defaults\<close> from the items of the configuration.\<close>

fun collect_defaults :: "(string \<times> pyval) list \<Rightarrow> pydict \<Rightarrow> pydict" where
  "collect_defaults [] defaults = defaults"
| "collect_defaults ((key, val) # rest) defaults =
     (if val \<noteq> PNone then collect_defaults rest (dict_set defaults key val)
      else collect_defaults rest defaults)"

text \<open>
  The dictionary that \<^verbatim>\<open>generate_react_props\<close> returns has five fixed keys; it is a record
  with one field for each (\<open>rp_position\<close> for the key \<^verbatim>\<open>position\<close>).
\<close>

record react_props =
  componentName :: string
  props :: pydict
  propTypes :: "(string \<times> string) list"
  defaultProps :: pydict
  rp_position :: pydict

definition generate_react_props :: "Widget \<Rightarrow> react_props" where
  "generate_react_props widget =
     (let component_name = dict_get_default type_map (widget_type widget) ''Widget'';
          props0 = dict_of_items (config widget
                     @ [(''visible'', PBool (visible widget)), (''id'', PStr (widget_id widget))]);
          props1 = (if label widget \<noteq> [] then dict_set props0 ''aria-label'' (PStr (label widget))
                    else props0);
          schema = dict_get_default CONFIG_SCHEMAS (widget_type widget) [];
          prop_types = build_prop_types schema
                         [(''id'', ''PropTypes.string''), (''visible'', ''PropTypes.bool'')];
          defaults = collect_defaults (config widget) [(''visible'', PBool True)]
      in \<lparr>componentName = component_name, props = props1, propTypes = prop_types,
          defaultProps = defaults, rp_position = asdict (position widget)\<rparr>)"

section \<open>Layout export\<close>

definition nl :: string where
  "nl = [CHR 0x0A]"

text \<open>\<^verbatim>\<open>s.replace(' ', '-')\<close> and \<^verbatim>\<open>s.lower()\<close>, on code points below 256.\<close>

definition replace_space :: "string \<Rightarrow> string" where
  "replace_space s = map (\<lambda>c. if c = CHR '' '' then CHR ''-'' else c) s"

definition lower_char :: "char \<Rightarrow> char" where
  "lower_char c =
     (let n = (of_char c :: nat)
      in if (65 \<le> n \<and> n \<le> 90) \<or> (192 \<le> n \<and> n \<le> 222 \<and> n \<noteq> 215) then char_of (n + 32) else c)"

definition lower :: "string \<Rightarrow> string" where
  "lower s = map lower_char s"

text \<open>The \<^verbatim>\<open>css\<close> branch: the head of \<^verbatim>\<open>lines\<close>, then five more lines for each widget.\<close>

definition css_head :: "WidgetLayout \<Rightarrow> string list" where
  "css_head layout = [
     ''/* Layout: '' @ layout_name layout @ '' */'',
     ''.layout-'' @ lower (replace_space (layout_name layout)) @ '' {'',
     ''  display: grid;'',
     ''  grid-template-columns: repeat('' @ str_int (columns layout) @ '', 1fr);'',
     ''  row-gap: '' @ str_int (row_height layout) @ ''px;'',
     ''}'',
     []]"

definition css_widget :: "Widget \<Rightarrow> string list" where
  "css_widget w =
     (let p = position w;
          cls = ''.widget-'' @ take 8 (widget_id w)
      in [cls @ '' {'',
          ''  grid-column: '' @ str_int (pos_x p + 1) @ '' / span '' @ str_int (pos_width p) @ '';'',
          ''  grid-row: '' @ str_int (pos_y p + 1) @ '' / span '' @ str_int (pos_height p) @ '';'',
          ''}'',
          []])"

definition css_lines :: "WidgetLayout \<Rightarrow> string list" where
  "css_lines layout = foldl (\<lambda>lines w. lines @ css_widget w) (css_head layout) (widgets layout)"

text \<open>The \<^verbatim>\<open>html\<close> branch: one row for each widget between the opening and the closing tag.\<close>

definition html_widget :: "Widget \<Rightarrow> string" where
  \<open>html_widget w =
     (let props = generate_react_props w;
          style = ''grid-column: '' @ str_int (pos_x (position w) + 1) @ '' / span ''
                  @ str_int (pos_width (position w)) @ ''; ''
                  @ ''grid-row: '' @ str_int (pos_y (position w) + 1) @ '' / span ''
                  @ str_int (pos_height (position w)) @ '';''
      in ''  <div class="widget widget-'' @ widget_type w @ ''" ''
         @ ''data-id="'' @ widget_id w @ ''" style="'' @ style @ ''">''
         @ ''<!-- '' @ componentName props @ '' --></div>'')\<close>

definition html_rows :: "WidgetLayout \<Rightarrow> string list" where
  \<open>html_rows layout =
     (let rows = [''<!-- Layout: '' @ layout_name layout @ '' -->'',
                  ''<div class="grid-layout" data-columns="'' @ str_int (columns layout) @ ''">''];
          rows = foldl (\<lambda>rows w. rows @ [html_widget w]) rows (widgets layout)
      in rows @ [''</div>''])\<close>

text \<open>
  \<^verbatim>\<open>export_layout\<close>. \<open>dumps\<close> is \<^verbatim>\<open>json.dumps(data, indent=2)\<close> of the standard library,
  which returns a text for every value of \<open>pyval\<close>.
\<close>

definition export_layout :: "(pyval \<Rightarrow> string) \<Rightarrow> WidgetLayout \<Rightarrow> string \<Rightarrow> error + string" where
  "export_layout dumps layout fmt =
     (if fmt = ''json'' then
        Inr (dumps (PDict [
          (''name'', PStr (layout_name layout)),
          (''columns'', PInt (columns layout)),
          (''row_height'', PInt (row_height layout)),
          (''widgets'', PList (map (\<lambda>w. PDict (serialize_widget w)) (widgets layout)))]))
      else if fmt = ''css'' then Inr (join nl (css_lines layout))
      else if fmt = ''html'' then Inr (join nl (html_rows layout))
      else Inl (ValueError (''Unsupported export format: '' @ fmt @ ''. Use json, css, or html.'')))"

text \<open>
  The style sheet as the specification describes it, block by block: a block is a selector
  and its declarations between braces, one declaration on a line. The sheet is the
  comment naming the layout, the block of the layout, and then the block of each widget
  after an empty line. It is compared with the lines that \<^verbatim>\<open>export_layout\<close> joins.
\<close>

definition css_block :: "string \<Rightarrow> (string \<times> string) list \<Rightarrow> string" where
  "css_block selector decls =
     selector @ '' {'' @ nl
     @ concat (map (\<lambda>(property, val). ''  '' @ property @ '': '' @ val @ '';'' @ nl) decls)
     @ ''}'' @ nl"

definition css_spec :: "WidgetLayout \<Rightarrow> string" where
  "css_spec layout =
     ''/* Layout: '' @ layout_name layout @ '' */'' @ nl
     @ css_block (''.layout-'' @ lower (replace_space (layout_name layout)))
         [(''display'', ''grid''),
          (''grid-template-columns'', ''repeat('' @ str_int (columns layout) @ '', 1fr)''),
          (''row-gap'', str_int (row_height layout) @ ''px'')]
     @ concat (map (\<lambda>w. nl @ css_block (''.widget-'' @ take 8 (widget_id w))
         [(''grid-column'',
             str_int (pos_x (position w) + 1) @ '' / span '' @ str_int (pos_width (position w))),
          (''grid-row'',
             str_int (pos_y (position w) + 1) @ '' / span '' @ str_int (pos_height (position w)))])
         (widgets layout))"

section \<open>Sample values\<close>

text \<open>The button of the test suite (\<^verbatim>\<open>tests/test_module.py\<close>), and a layout that holds it.\<close>

definition button_widget :: Widget where
  "button_widget =
     \<lparr>widget_type = ''button'',
      config = [(''label'', PStr ''Submit''), (''variant'', PStr ''primary''),
                (''disabled'', PBool False)],
      position = \<lparr>pos_x = 0, pos_y = 0, pos_width = 3, pos_height = 1\<rparr>,
      widget_id = ''9f1c2d3e-4a5b-4c6d-8e7f-0a1b2c3d4e5f'',
      label = ''Submit'',
      visible = True,
      created_at = ''2024-05-01T12:00:00.000000'',
      db_id = None\<rparr>"

definition css_layout :: WidgetLayout where
  "css_layout =
     \<lparr>layout_name = ''css_layout'', widgets = [button_widget], columns = 12, row_height = 60,
      layout_id = None, layout_created_at = ''2024-05-01T12:00:00.000000''\<rparr>"

definition css_layout_empty :: WidgetLayout where
  "css_layout_empty = css_layout\<lparr>widgets := []\<rparr>"

text \<open>
  A widget that has been saved (it has a storage handle), one without identifier, one of
  no known type whose configuration, position and identifier are all off, and one whose
  configuration has a field \<^verbatim>\<open>visible\<close> of its own.
\<close>

definition saved_widget :: Widget where
  "saved_widget = button_widget\<lparr>db_id := Some 1\<rparr>"

definition anonymous_widget :: Widget where
  "anonymous_widget = button_widget\<lparr>widget_id := []\<rparr>"

definition nonexistent_widget :: Widget where
  "nonexistent_widget =
     \<lparr>widget_type = ''nonexistent'',
      config = [(''label'', PInt 3)],
      position = \<lparr>pos_x = 20, pos_y = 0, pos_width = 0, pos_height = 0\<rparr>,
      widget_id = [],
      label = [],
      visible = True,
      created_at = ''2024-05-01T12:00:00.000000'',
      db_id = None\<rparr>"

definition overflow_widget :: Widget where
  "overflow_widget =
     button_widget\<lparr>config := [],
                    position := \<lparr>pos_x = 10, pos_y = 0, pos_width = 5, pos_height = 1\<rparr>\<rparr>"

definition hidden_widget :: Widget where
  "hidden_widget = button_widget\<lparr>config := [(''visible'', PBool False), (''id'', PInt 3)]\<rparr>"

text \<open>
  Stand-ins for the library where a sample run needs one: a \<^verbatim>\<open>json.loads\<close> that is handed
  no well-formed text, and a \<^verbatim>\<open>json.dumps\<close> that prints only the outermost braces.
\<close>

definition loads_none :: "string \<Rightarrow> pyval option" where
  "loads_none s = None"

definition dumps_braces :: "pyval \<Rightarrow> string" where
  "dumps_braces v = ''{}''"

section \<open>Properties\<close>

subsection \<open>Dictionaries, joined lines\<close>

lemma dict_get_dict_set:
  "dict_get (dict_set d k v) k' = (if k' = k then Some v else dict_get d k')"
  by (induction d) (auto simp: dict_get_def)

lemma keys_dict_set:
  "map fst (dict_set d k v) = (if k \<in> set (map fst d) then map fst d else map fst d @ [k])"
  by (induction d) force+

lemma dict_wf_dict_set: "dict_wf d \<Longrightarrow> dict_wf (dict_set d k v)"
  by (simp add: dict_wf_def keys_dict_set)

lemma foldl_append_concat:
  "foldl (\<lambda>acc x. acc @ f x) init xs = init @ concat (map f xs)"
  by (induction xs arbitrary: init) simp_all

lemma join_terminated:
  "xs \<noteq> [] \<Longrightarrow> join sep (xs @ [[]]) = concat (map (\<lambda>l. l @ sep) xs)"
proof (induction xs rule: join.induct[of _ sep])
  case (1 sep)
  then show ?case by simp
next
  case (2 sep s)
  then show ?case by simp
next
  case (3 sep s t ts)
  then show ?case by simp
qed

lemma blocks_shift:
  "(xs @ [e]) @ concat (map (\<lambda>w. f w @ [e]) ws) = (xs @ concat (map (\<lambda>w. e # f w) ws)) @ [e]"
  by (induction ws arbitrary: xs) simp_all

lemma concat_map_blocks:
  "concat (map g (concat (map f ws))) = concat (map (\<lambda>w. concat (map g (f w))) ws)"
  by (induction ws) simp_all

subsection \<open>Validation\<close>

lemma check_fields_conforms:
  "config_conforms cfg schema \<Longrightarrow> check_fields cfg schema errors = errors"
  by (induction cfg schema errors rule: check_fields.induct)
     (auto split: option.splits expected.splits)

text \<open>
  C1, amended. A widget whose type is one of \<open>WIDGET_TYPES\<close>, whose position satisfies
  \<open>0 \<le> x \<le> 12\<close>, \<open>1 \<le> width \<le> 12\<close>, \<open>x + width \<le> 12\<close> and \<open>height \<ge> 1\<close>, whose
  configuration gives every field of the schema that it holds a value of the expected
  class, and whose identifier is not empty, has no validation error. The last condition
  cannot be left out: \<^verbatim>\<open>validate_config\<close> ends with the check of \<^verbatim>\<open>widget_id\<close>.
\<close>

theorem validate_config_valid:
  assumes "widget_type w \<in> WIDGET_TYPES"
    and "0 \<le> pos_x (position w)" and "pos_x (position w) \<le> 12"
    and "1 \<le> pos_width (position w)" and "pos_width (position w) \<le> 12"
    and "pos_x (position w) + pos_width (position w) \<le> 12"
    and "pos_height (position w) \<ge> 1"
    and "config_conforms (config w) (dict_get_default CONFIG_SCHEMAS (widget_type w) [])"
    and "widget_id w \<noteq> []"
  shows "validate_config w = []"
  using assms by (simp add: validate_config_def Let_def check_fields_conforms)

lemma button_widget_conforms:
  "config_conforms (config button_widget)
     (dict_get_default CONFIG_SCHEMAS (widget_type button_widget) [])"
  by (simp add: button_widget_def CONFIG_SCHEMAS_def dict_get_default_def dict_get_def)

theorem validate_config_valid_witness:
  "widget_type button_widget \<in> WIDGET_TYPES
   \<and> 0 \<le> pos_x (position button_widget) \<and> pos_x (position button_widget) \<le> 12
   \<and> 1 \<le> pos_width (position button_widget) \<and> pos_width (position button_widget) \<le> 12
   \<and> pos_x (position button_widget) + pos_width (position button_widget) \<le> 12
   \<and> pos_height (position button_widget) \<ge> 1
   \<and> config_conforms (config button_widget)
        (dict_get_default CONFIG_SCHEMAS (widget_type button_widget) [])
   \<and> widget_id button_widget \<noteq> []
   \<and> validate_config button_widget = []"
proof -
  have t: "widget_type button_widget \<in> WIDGET_TYPES"
    by (simp add: button_widget_def WIDGET_TYPES_def)
  have p: "0 \<le> pos_x (position button_widget)" "pos_x (position button_widget) \<le> 12"
    "1 \<le> pos_width (position button_widget)" "pos_width (position button_widget) \<le> 12"
    "pos_x (position button_widget) + pos_width (position button_widget) \<le> 12"
    "pos_height (position button_widget) \<ge> 1"
    by (simp_all add: button_widget_def)
  have i: "widget_id button_widget \<noteq> []"
    by (simp add: button_widget_def)
  note v = validate_config_valid[OF t p button_widget_conforms i]
  from t p button_widget_conforms i v show ?thesis by blast
qed

text \<open>
  The property without the condition on the identifier fails on the button of the test
  suite once its identifier is empty: type, position and configuration are as required,
  and the widget has an error.
\<close>

theorem validate_config_valid_counterexample:
  "widget_type anonymous_widget \<in> WIDGET_TYPES
   \<and> 0 \<le> pos_x (position anonymous_widget) \<and> pos_x (position anonymous_widget) \<le> 12
   \<and> 1 \<le> pos_width (position anonymous_widget) \<and> pos_width (position anonymous_widget) \<le> 12
   \<and> pos_x (position anonymous_widget) + pos_width (position anonymous_widget) \<le> 12
   \<and> pos_height (position anonymous_widget) \<ge> 1
   \<and> config_conforms (config anonymous_widget)
        (dict_get_default CONFIG_SCHEMAS (widget_type anonymous_widget) [])
   \<and> validate_config anonymous_widget = [''widget_id is required'']
   \<and> validate_config anonymous_widget \<noteq> []"
proof -
  have c: "config_conforms (config anonymous_widget)
        (dict_get_default CONFIG_SCHEMAS (widget_type anonymous_widget) [])"
    using button_widget_conforms by (simp add: anonymous_widget_def)
  have t: "widget_type anonymous_widget \<in> WIDGET_TYPES"
    by (simp add: anonymous_widget_def button_widget_def WIDGET_TYPES_def)
  have v: "validate_config anonymous_widget = [''widget_id is required'']"
    using c t check_fields_conforms[OF c, of "[]"]
    by (simp add: validate_config_def Let_def) (simp add: anonymous_widget_def button_widget_def)
  have p: "0 \<le> pos_x (position anonymous_widget)" "pos_x (position anonymous_widget) \<le> 12"
    "1 \<le> pos_width (position anonymous_widget)" "pos_width (position anonymous_widget) \<le> 12"
    "pos_x (position anonymous_widget) + pos_width (position anonymous_widget) \<le> 12"
    "pos_height (position anonymous_widget) \<ge> 1"
    by (simp_all add: anonymous_widget_def button_widget_def)
  from t p c v show ?thesis by simp
qed

text \<open>
  C3. A widget whose type is not one of \<open>WIDGET_TYPES\<close> gets exactly one error, the one
  that names the unknown type: whatever its configuration, its position and its
  identifier are, nothing is reported about them.
\<close>

theorem validate_config_unknown_type:
  "widget_type w \<notin> WIDGET_TYPES \<Longrightarrow>
   validate_config w = [''Unknown widget type: '' @ widget_type w]"
  by (simp add: validate_config_def)

theorem validate_config_unknown_type_witness:
  "widget_type nonexistent_widget \<notin> WIDGET_TYPES
   \<and> validate_config nonexistent_widget = [''Unknown widget type: nonexistent'']"
proof -
  have t: "widget_type nonexistent_widget \<notin> WIDGET_TYPES"
    by (simp add: nonexistent_widget_def WIDGET_TYPES_def)
  from validate_config_unknown_type[OF t]
  have "validate_config nonexistent_widget = [''Unknown widget type: nonexistent'']"
    by (simp add: nonexistent_widget_def)
  with t show ?thesis by blast
qed

text \<open>
  C7. A widget whose type is one of \<open>WIDGET_TYPES\<close> and whose position has
  \<open>x + width > 12\<close> gets an error whose text contains \<^verbatim>\<open>overflows\<close>.
\<close>

theorem validate_config_overflow:
  assumes "widget_type w \<in> WIDGET_TYPES"
    and "pos_x (position w) + pos_width (position w) > 12"
  shows "\<exists>e \<in> set (validate_config w). sublist ''overflows'' e"
proof -
  let ?m = "''Widget overflows grid: x('' @ str_int (pos_x (position w))
            @ '') + width('' @ str_int (pos_width (position w)) @ '') > 12''"
  have "sublist ''overflows'' ?m"
    unfolding sublist_def by (rule exI[of _ "''Widget ''"]) simp
  moreover have "?m \<in> set (validate_config w)"
    using assms by (simp add: validate_config_def Let_def)
  ultimately show ?thesis by blast
qed

theorem validate_config_overflow_witness:
  "widget_type overflow_widget \<in> WIDGET_TYPES
   \<and> pos_x (position overflow_widget) + pos_width (position overflow_widget) > 12
   \<and> (\<exists>e \<in> set (validate_config overflow_widget). sublist ''overflows'' e)"
proof -
  have t: "widget_type overflow_widget \<in> WIDGET_TYPES"
    by (simp add: overflow_widget_def button_widget_def WIDGET_TYPES_def)
  have p: "pos_x (position overflow_widget) + pos_width (position overflow_widget) > 12"
    by (simp add: overflow_widget_def)
  from t p validate_config_overflow[OF t p] show ?thesis by blast
qed

subsection \<open>Serialization\<close>

lemma make_widget_db_id:
  "make_widget v_id v_type v_label v_config v_x v_y v_width v_height v_visible v_created = Inr w
   \<Longrightarrow> db_id w = None"
  by (auto simp: make_widget_def split: option.splits)

lemma deserialize_widget_db_id:
  "deserialize_widget loads uuid4 utcnow data = Inr w \<Longrightarrow> db_id w = None"
  by (auto simp: deserialize_widget_def Let_def split: option.splits pyval.splits
           dest: make_widget_db_id)

text \<open>
  C2, amended. Deserializing the serialized form of a widget gives the widget back in
  every field but the storage handle: type, configuration, position (\<open>x\<close>, \<open>y\<close>, \<open>width\<close>,
  \<open>height\<close>), identifier, label, visibility and creation time are those of the widget, and
  \<open>db_id\<close> is \<open>None\<close>. So the result equals a widget that was never saved.
\<close>

theorem roundtrip_except_db_id:
  "deserialize_widget loads uuid4 utcnow (PDict (serialize_widget w)) = Inr (w\<lparr>db_id := None\<rparr>)"
  by (cases w)
     (simp add: deserialize_widget_def serialize_widget_def dict_get_default_def dict_get_def
        asdict_def make_widget_def the_str_def the_int_def the_bool_def the_dict_def Let_def)

text \<open>
  The round trip of a saved widget does not give the widget back: its storage handle is
  lost.
\<close>

theorem roundtrip_counterexample:
  "deserialize_widget loads_none [] [] (PDict (serialize_widget saved_widget)) \<noteq> Inr saved_widget"
proof
  assume "deserialize_widget loads_none [] [] (PDict (serialize_widget saved_widget))
          = Inr saved_widget"
  then have "db_id saved_widget = None"
    by (rule deserialize_widget_db_id)
  then show False
    by (simp add: saved_widget_def)
qed

text \<open>
  C9. An input object without the key \<^verbatim>\<open>widget_type\<close> makes \<^verbatim>\<open>deserialize_widget\<close> raise
  \<^verbatim>\<open>KeyError\<close>, whatever else it holds; an object with that key alone gives a widget with
  every default: the fresh identifier, the empty label, the empty configuration, the
  position \<open>(0, 0, 4, 2)\<close>, visible, the current time and no storage handle.
\<close>

theorem deserialize_requires_widget_type:
  "(dict_get d ''widget_type'' = None \<longrightarrow>
      deserialize_widget loads uuid4 utcnow (PDict d) = Inl (KeyError ''widget_type''))
   \<and> deserialize_widget loads uuid4 utcnow (PDict [(''widget_type'', PStr t)]) =
       Inr \<lparr>widget_type = t, config = [],
            position = \<lparr>pos_x = 0, pos_y = 0, pos_width = 4, pos_height = 2\<rparr>,
            widget_id = uuid4, label = [], visible = True, created_at = utcnow,
            db_id = None\<rparr>"
  by (simp add: deserialize_widget_def dict_get_default_def dict_get_def make_widget_def
        the_str_def the_int_def the_bool_def the_dict_def Let_def)

theorem deserialize_requires_widget_type_witness:
  "dict_get [(''label'', PStr ''Submit''), (''position'', PNone)] ''widget_type'' = None
   \<and> deserialize_widget loads_none ''9f1c2d3e'' ''2024-05-01T12:00:00''
        (PDict [(''label'', PStr ''Submit''), (''position'', PNone)]) = Inl (KeyError ''widget_type'')
   \<and> deserialize_widget loads_none ''9f1c2d3e'' ''2024-05-01T12:00:00''
        (PDict [(''widget_type'', PStr ''card'')]) =
       Inr \<lparr>widget_type = ''card'', config = [],
            position = \<lparr>pos_x = 0, pos_y = 0, pos_width = 4, pos_height = 2\<rparr>,
            widget_id = ''9f1c2d3e'', label = [], visible = True,
            created_at = ''2024-05-01T12:00:00'', db_id = None\<rparr>"
proof -
  have h: "dict_get [(''label'', PStr ''Submit''), (''position'', PNone)] ''widget_type'' = None"
    by (simp add: dict_get_def)
  from h deserialize_requires_widget_type[of "[(''label'', PStr ''Submit''), (''position'', PNone)]"
      loads_none "''9f1c2d3e''" "''2024-05-01T12:00:00''" "''card''"]
  show ?thesis by blast
qed

text \<open>
  C10. The serialized form of a widget has the seven keys of \<^verbatim>\<open>serialize_widget\<close> and no
  key \<^verbatim>\<open>db_id\<close>, and every widget that \<^verbatim>\<open>deserialize_widget\<close> returns has no storage
  handle, whether the widget that was serialized had one or not.
\<close>

theorem db_id_never_serialized:
  "map fst (serialize_widget w) =
     [''widget_id'', ''widget_type'', ''label'', ''config'', ''position'', ''visible'', ''created_at'']
   \<and> dict_get (serialize_widget w) ''db_id'' = None
   \<and> (deserialize_widget loads uuid4 utcnow data = Inr w' \<longrightarrow> db_id w' = None)"
  by (simp add: serialize_widget_def dict_get_def deserialize_widget_db_id)

theorem db_id_never_serialized_witness:
  "db_id saved_widget = Some 1
   \<and> dict_get (serialize_widget saved_widget) ''db_id'' = None
   \<and> deserialize_widget loads_none [] [] (PDict (serialize_widget saved_widget)) = Inr button_widget
   \<and> db_id button_widget = None"
proof -
  have r: "deserialize_widget loads_none [] [] (PDict (serialize_widget saved_widget)) = Inr button_widget"
    by (simp add: deserialize_widget_def serialize_widget_def dict_get_default_def dict_get_def
        asdict_def make_widget_def the_str_def the_int_def the_bool_def the_dict_def Let_def
        saved_widget_def button_widget_def)
  have s: "db_id saved_widget = Some 1"
    by (simp add: saved_widget_def)
  from r s db_id_never_serialized[of saved_widget loads_none "[]" "[]"
      "PDict (serialize_widget saved_widget)" button_widget]
  show ?thesis by blast
qed

subsection \<open>React props\<close>

lemma collect_defaults_get:
  "dict_wf items \<Longrightarrow>
   dict_get (collect_defaults items d) k =
     (case dict_get items k of
        Some v \<Rightarrow> if v \<noteq> PNone then Some v else dict_get d k
      | None \<Rightarrow> dict_get d k)"
proof (induction items d rule: collect_defaults.induct)
  case (1 defaults)
  then show ?case by (simp add: dict_get_def)
next
  case (2 key val rest defaults)
  from "2.prems" have wf: "dict_wf rest" and fresh: "key \<notin> fst ` set rest"
    by (auto simp: dict_wf_def)
  from fresh have none: "dict_get rest key = None"
    by (simp add: dict_get_def map_of_eq_None_iff)
  show ?case
  proof (cases "val = PNone")
    case True
    with 2 wf none show ?thesis
      by (auto simp: dict_get_def split: option.splits)
  next
    case False
    with 2 wf none show ?thesis
      by (auto simp: dict_get_def dict_get_dict_set[unfolded dict_get_def] split: option.splits)
  qed
qed

lemma collect_defaults_wf:
  "dict_wf d \<Longrightarrow> dict_wf (collect_defaults items d)"
  by (induction items d rule: collect_defaults.induct) (auto simp: dict_wf_dict_set)

text \<open>
  C4, amended. For a widget whose configuration is a dictionary, \<^verbatim>\<open>defaultProps\<close> is a
  dictionary that maps every field of the configuration whose value is not \<^verbatim>\<open>None\<close> to
  that value, maps \<^verbatim>\<open>visible\<close> to \<^verbatim>\<open>True\<close> when the configuration has no field \<^verbatim>\<open>visible\<close>
  or has it with the value \<^verbatim>\<open>None\<close>, and has no other entry. A field \<^verbatim>\<open>visible\<close> of the
  configuration that is not \<^verbatim>\<open>None\<close> takes the place of the entry \<^verbatim>\<open>visible: True\<close>.
\<close>

theorem default_props_entries:
  assumes "dict_wf (config w)"
  shows "dict_wf (defaultProps (generate_react_props w)) \<and>
         dict_get (defaultProps (generate_react_props w)) k =
           (case dict_get (config w) k of
              Some v \<Rightarrow> if v \<noteq> PNone then Some v
                        else if k = ''visible'' then Some (PBool True) else None
            | None \<Rightarrow> if k = ''visible'' then Some (PBool True) else None)"
proof -
  have base: "dict_wf [(''visible'', PBool True)]"
    by (simp add: dict_wf_def)
  have dflt: "dict_get [(''visible'', PBool True)] k =
              (if k = ''visible'' then Some (PBool True) else None)"
    by (simp add: dict_get_def)
  have d: "defaultProps (generate_react_props w) =
           collect_defaults (config w) [(''visible'', PBool True)]"
    by (simp add: generate_react_props_def Let_def)
  show ?thesis
    unfolding d collect_defaults_get[OF assms] dflt
    using collect_defaults_wf[OF base] by simp
qed

theorem default_props_entries_witness:
  "dict_wf (config button_widget)
   \<and> dict_wf (defaultProps (generate_react_props button_widget))
   \<and> dict_get (defaultProps (generate_react_props button_widget)) ''visible'' = Some (PBool True)
   \<and> dict_get (defaultProps (generate_react_props button_widget)) ''label'' = Some (PStr ''Submit'')
   \<and> dict_get (defaultProps (generate_react_props button_widget)) ''id'' = None"
proof -
  have wf: "dict_wf (config button_widget)"
    by (simp add: button_widget_def dict_wf_def)
  have c: "dict_get (config button_widget) ''visible'' = None"
    "dict_get (config button_widget) ''label'' = Some (PStr ''Submit'')"
    "dict_get (config button_widget) ''id'' = None"
    by (simp_all add: button_widget_def dict_get_def)
  from default_props_entries[OF wf, of "''visible''"] default_props_entries[OF wf, of "''label''"]
    default_props_entries[OF wf, of "''id''"] wf c
  show ?thesis by simp
qed

text \<open>
  With a field \<^verbatim>\<open>visible: False\<close> in the configuration, \<^verbatim>\<open>defaultProps\<close> does not map
  \<^verbatim>\<open>visible\<close> to \<^verbatim>\<open>True\<close>.
\<close>

theorem default_props_visible_counterexample:
  "dict_get (defaultProps (generate_react_props hidden_widget)) ''visible'' = Some (PBool False)
   \<and> dict_get (defaultProps (generate_react_props hidden_widget)) ''visible'' \<noteq> Some (PBool True)"
  by (simp add: generate_react_props_def Let_def hidden_widget_def dict_get_def)

text \<open>
  C5. The \<^verbatim>\<open>props\<close> of a widget map \<^verbatim>\<open>id\<close> to the identifier of the widget and \<^verbatim>\<open>visible\<close>
  to its visibility, also when the configuration has fields of these names: the two keys
  are written after the configuration has been copied.
\<close>

theorem props_injected_keys:
  "dict_get (props (generate_react_props w)) ''id'' = Some (PStr (widget_id w)) \<and>
   dict_get (props (generate_react_props w)) ''visible'' = Some (PBool (visible w))"
  by (simp add: generate_react_props_def Let_def dict_of_items_def dict_get_dict_set)

theorem props_injected_keys_witness:
  "dict_get (config hidden_widget) ''id'' = Some (PInt 3)
   \<and> dict_get (config hidden_widget) ''visible'' = Some (PBool False)
   \<and> dict_get (props (generate_react_props hidden_widget)) ''id''
       = Some (PStr ''9f1c2d3e-4a5b-4c6d-8e7f-0a1b2c3d4e5f'')
   \<and> dict_get (props (generate_react_props hidden_widget)) ''visible'' = Some (PBool True)"
proof -
  have c: "dict_get (config hidden_widget) ''id'' = Some (PInt 3)"
    "dict_get (config hidden_widget) ''visible'' = Some (PBool False)"
    by (simp_all add: hidden_widget_def dict_get_def)
  have f: "widget_id hidden_widget = ''9f1c2d3e-4a5b-4c6d-8e7f-0a1b2c3d4e5f''"
    "visible hidden_widget = True"
    by (simp_all add: hidden_widget_def button_widget_def)
  from props_injected_keys[of hidden_widget] c f show ?thesis by simp
qed

subsection \<open>Layout export\<close>

text \<open>
  C6. A format other than \<^verbatim>\<open>json\<close>, \<^verbatim>\<open>css\<close> and \<^verbatim>\<open>html\<close> makes \<^verbatim>\<open>export_layout\<close> raise an
  error whose message contains the format that was asked for, and each of the three
  formats returns a text for a layout without widgets.
\<close>

theorem export_layout_formats:
  "(fmt \<notin> {''json'', ''css'', ''html''} \<longrightarrow>
      export_layout dumps layout fmt =
        Inl (ValueError (''Unsupported export format: '' @ fmt @ ''. Use json, css, or html.''))
      \<and> sublist fmt (''Unsupported export format: '' @ fmt @ ''. Use json, css, or html.''))
   \<and> (widgets layout = [] \<longrightarrow>
        (\<exists>out. export_layout dumps layout ''json'' = Inr out)
        \<and> (\<exists>out. export_layout dumps layout ''css'' = Inr out)
        \<and> (\<exists>out. export_layout dumps layout ''html'' = Inr out))"
proof -
  have "sublist fmt (''Unsupported export format: '' @ fmt @ ''. Use json, css, or html.'')"
    unfolding sublist_def by blast
  then show ?thesis
    by (simp add: export_layout_def)
qed

theorem export_layout_formats_witness:
  "''xml'' \<notin> {''json'', ''css'', ''html''}
   \<and> widgets css_layout_empty = []
   \<and> export_layout dumps_braces css_layout_empty ''xml'' =
       Inl (ValueError ''Unsupported export format: xml. Use json, css, or html.'')
   \<and> sublist ''xml'' ''Unsupported export format: xml. Use json, css, or html.''
   \<and> (\<exists>out. export_layout dumps_braces css_layout_empty ''json'' = Inr out)
   \<and> (\<exists>out. export_layout dumps_braces css_layout_empty ''css'' = Inr out)
   \<and> (\<exists>out. export_layout dumps_braces css_layout_empty ''html'' = Inr out)"
proof -
  have f: "''xml'' \<notin> {''json'', ''css'', ''html''}"
    by simp
  have e: "widgets css_layout_empty = []"
    by (simp add: css_layout_empty_def)
  from f e export_layout_formats[of "''xml''" dumps_braces css_layout_empty]
  show ?thesis by simp
qed

text \<open>
  C8. The \<^verbatim>\<open>css\<close> export of a layout is the style sheet \<open>css_spec\<close>: after the comment
  that names the layout, one block whose selector is \<^verbatim>\<open>.layout-\<close> and the name of the
  layout with hyphens for spaces and in lower case, with the declarations
  \<^verbatim>\<open>display: grid\<close>, \<^verbatim>\<open>grid-template-columns: repeat(columns, 1fr)\<close> and
  \<^verbatim>\<open>row-gap: row_height px\<close>; then, in the order of the layout, one block for each widget
  whose selector is \<^verbatim>\<open>.widget-\<close> and the first eight characters of the identifier, with the
  declarations \<^verbatim>\<open>grid-column: x+1 / span width\<close> and \<^verbatim>\<open>grid-row: y+1 / span height\<close>.
\<close>

theorem export_css_blocks:
  "export_layout dumps layout ''css'' = Inr (css_spec layout)"
proof -
  let ?head = "butlast (css_head layout)"
  let ?body = "\<lambda>w. butlast (css_widget w)"
  have h: "css_head layout = ?head @ [[]]"
    by (simp add: css_head_def)
  have b: "css_widget = (\<lambda>w. ?body w @ [[]])"
    by (rule ext) (simp add: css_widget_def Let_def)
  have "css_lines layout = (?head @ [[]]) @ concat (map (\<lambda>w. ?body w @ [[]]) (widgets layout))"
    unfolding css_lines_def foldl_append_concat using h b by metis
  also have "\<dots> = (?head @ concat (map (\<lambda>w. [] # ?body w) (widgets layout))) @ [[]]"
    by (rule blocks_shift)
  finally have lines: "css_lines layout =
      (?head @ concat (map (\<lambda>w. [] # ?body w) (widgets layout))) @ [[]]" .
  have ne: "?head @ concat (map (\<lambda>w. [] # ?body w) (widgets layout)) \<noteq> []"
    by (simp add: css_head_def)
  have "join nl (css_lines layout) =
        concat (map (\<lambda>l. l @ nl) (?head @ concat (map (\<lambda>w. [] # ?body w) (widgets layout))))"
    unfolding lines by (rule join_terminated[OF ne])
  also have "\<dots> = css_spec layout"
    by (simp add: css_spec_def css_block_def css_head_def css_widget_def Let_def
          concat_map_blocks)
  finally show ?thesis
    by (simp add: export_layout_def)
qed

text \<open>The style sheet of the layout of the test suite, one line of the file on each line.\<close>

theorem export_css_blocks_witness:
  "export_layout dumps_braces css_layout ''css'' = Inr (
     ''/* Layout: css_layout */'' @ nl @
     ''.layout-css_layout {'' @ nl @
     ''  display: grid;'' @ nl @
     ''  grid-template-columns: repeat(12, 1fr);'' @ nl @
     ''  row-gap: 60px;'' @ nl @
     ''}'' @ nl @
     nl @
     ''.widget-9f1c2d3e {'' @ nl @
     ''  grid-column: 1 / span 3;'' @ nl @
     ''  grid-row: 1 / span 1;'' @ nl @
     ''}'' @ nl)"
proof -
  have "css_spec css_layout =
     ''/* Layout: css_layout */'' @ nl @
     ''.layout-css_layout {'' @ nl @
     ''  display: grid;'' @ nl @
     ''  grid-template-columns: repeat(12, 1fr);'' @ nl @
     ''  row-gap: 60px;'' @ nl @
     ''}'' @ nl @
     nl @
     ''.widget-9f1c2d3e {'' @ nl @
     ''  grid-column: 1 / span 3;'' @ nl @
     ''  grid-row: 1 / span 1;'' @ nl @
     ''}'' @ nl"
    by code_simp
  with export_css_blocks[of dumps_braces css_layout] show ?thesis by simp
qed

end
